theory Spec2Isabelle
  imports Main
begin

section \<open>Python values and dictionaries\<close>

text \<open>
  The values the ORM moves between model attributes, statement parameters and result
  rows. A Python \<open>dict\<close> is kept as an association list with distinct keys in insertion
  order: \<open>d[k] = v\<close> overwrites the value of an existing key in place and appends a new
  key at the end.
\<close>

datatype pyval = PNone | PBool bool | PInt int | PStr string | PList "pyval list"

type_synonym row = "(string \<times> pyval) list"

primrec dict_set :: "'k \<Rightarrow> 'v \<Rightarrow> ('k \<times> 'v) list \<Rightarrow> ('k \<times> 'v) list" where
  "dict_set k v [] = [(k, v)]"
| "dict_set k v (p # ps) = (if fst p = k then (k, v) # ps else p # dict_set k v ps)"

text \<open>\<open>dict(pairs)\<close> and a dict comprehension: the pairs are stored left to right.\<close>

definition dict_of :: "('k \<times> 'v) list \<Rightarrow> ('k \<times> 'v) list" where
  "dict_of kvs = foldl (\<lambda>d kv. dict_set (fst kv) (snd kv) d) [] kvs"

definition dict_keys :: "('k \<times> 'v) list \<Rightarrow> 'k list" where
  "dict_keys d = map fst d"

definition dict_values :: "('k \<times> 'v) list \<Rightarrow> 'v list" where
  "dict_values d = map snd d"

text \<open>\<open>col.startswith('_')\<close>\<close>

definition startswith_underscore :: "string \<Rightarrow> bool" where
  "startswith_underscore col = (case col of [] \<Rightarrow> False | c # _ \<Rightarrow> c = CHR ''_'')"

text \<open>\<open>sep.join(parts)\<close> on strings.\<close>

fun str_join :: "string \<Rightarrow> string list \<Rightarrow> string" where
  "str_join sep [] = []"
| "str_join sep [x] = x"
| "str_join sep (x # y # ys) = x @ sep @ str_join sep (y # ys)"

section \<open>SQL composition (\<open>psycopg2.sql\<close>)\<close>

text \<open>
  The statements are built from the driver's composable objects: \<open>SQL\<close> wraps a string
  that is emitted verbatim, \<open>Identifier\<close> a name that the driver quotes, \<open>Placeholder\<close>
  a bound parameter, \<open>Composed\<close> a sequence of them. \<open>sql_join\<close> is \<open>SQL.join\<close>; the
  results of \<open>SQL.format\<close> on the three fixed templates are written out piece by piece.
  \<open>as_string\<close> renders a statement, given the connection's identifier quoting.
\<close>

datatype composable =
    SQL string
  | Identifier string
  | Placeholder
  | Composed "composable list"

fun sql_join :: "composable \<Rightarrow> composable list \<Rightarrow> composable" where
  "sql_join sep [] = Composed []"
| "sql_join sep (x # xs) = Composed (x # concat (map (\<lambda>i. [sep, i]) xs))"

fun as_string :: "(string \<Rightarrow> string) \<Rightarrow> composable \<Rightarrow> string" where
  "as_string q (SQL s) = s"
| "as_string q (Identifier s) = q s"
| "as_string q Placeholder = ''%s''"
| "as_string q (Composed xs) = concat (map (as_string q) xs)"

text \<open>The names a statement passes through identifier quoting, left to right.\<close>

fun identifiers :: "composable \<Rightarrow> string list" where
  "identifiers (SQL s) = []"
| "identifiers (Identifier s) = [s]"
| "identifiers Placeholder = []"
| "identifiers (Composed xs) = concat (map identifiers xs)"

text \<open>The number of bound parameters a statement expects.\<close>

fun placeholders :: "composable \<Rightarrow> nat" where
  "placeholders (SQL s) = 0"
| "placeholders (Identifier s) = 0"
| "placeholders Placeholder = 1"
| "placeholders (Composed xs) = sum_list (map placeholders xs)"

subsection \<open>The statement of \<open>Database.insert_record\<close>\<close>

text \<open>
  \<open>record = {col: value for col, value in zip(columns, values) if not col.startswith('_')}\<close>
\<close>

definition insert_record_dict :: "string list \<Rightarrow> pyval list \<Rightarrow> row" where
  "insert_record_dict columns values =
     dict_of (filter (\<lambda>cv. \<not> startswith_underscore (fst cv)) (zip columns values))"

definition insert_sql_statement :: "string \<Rightarrow> row \<Rightarrow> composable" where
  "insert_sql_statement table record =
     Composed
       [SQL ''INSERT INTO '', Identifier table, SQL '' ('',
        sql_join (SQL '','') (map Identifier (dict_keys record)),
        SQL '') VALUES ('',
        sql_join (SQL '','') (replicate (length record) Placeholder),
        SQL '') RETURNING *;'']"

subsection \<open>The statement of \<open>Database.select_records\<close>\<close>

text \<open>The \<open>columns\<close> argument is a list of names or a string (default \<open>'*'\<close>).\<close>

datatype columns_arg = ColumnList "string list" | ColumnStr string

definition select_columns_sql :: "columns_arg \<Rightarrow> composable" where
  "select_columns_sql columns =
     (case columns of
        ColumnList cs \<Rightarrow> sql_join (SQL '', '') (map Identifier cs)
      | ColumnStr s \<Rightarrow> SQL s)"

text \<open>\<open>if where_clause:\<close> is false for \<open>None\<close> and for the empty string.\<close>

definition select_sql_statement :: "string \<Rightarrow> columns_arg \<Rightarrow> string option \<Rightarrow> composable" where
  "select_sql_statement table columns where_clause =
     (let query = [SQL ''SELECT '', select_columns_sql columns, SQL '' FROM '', Identifier table]
      in case where_clause of
           None \<Rightarrow> Composed query
         | Some wc \<Rightarrow>
             if wc = [] then Composed query
             else Composed (query @ [SQL '' WHERE '', SQL wc]))"

subsection \<open>The statement of \<open>Database.update_record\<close>\<close>

definition update_sql_statement :: "string \<Rightarrow> string list \<Rightarrow> string \<Rightarrow> composable" where
  "update_sql_statement table columns where_clause =
     (let set_clause =
            sql_join (SQL '', '')
              (map (\<lambda>col. Composed [Identifier col, SQL '' = '', Placeholder]) columns)
      in Composed
           [SQL ''UPDATE '', Identifier table, SQL '' SET '', set_clause,
            SQL '' WHERE '', SQL where_clause])"

section \<open>The world outside the program\<close>

text \<open>
  The program talks to a PostgreSQL server through the \<open>psycopg2\<close> driver, prints to
  standard output and reads one file. None of that is code of the repository, so it is a
  parameter: the trace records every call the program makes, in order, and an
  environment \<open>env\<close> decides, from the trace so far, how each call answers. Every
  theorem below holds for all environments unless it names one.

  A connection is named by the position of its \<open>Connect\<close> event in the trace, so each
  call of \<open>psycopg2.connect\<close> yields a handle that no earlier call has returned.
  Calls the source makes outside every \<open>try\<close> and treats as always returning
  (\<open>rollback\<close>, \<open>close\<close>, setting \<open>autocommit\<close>, \<open>print\<close>) return normally here.
  A statement that executes yields the column names of \<open>cursor.description\<close>, the
  rows still to fetch and \<open>cursor.rowcount\<close>. \<open>py_repr\<close> is Python's \<open>repr\<close>, and
  \<open>zip_none_error\<close> the message of the \<open>TypeError\<close> that \<open>zip\<close> raises on \<open>None\<close>
  (its wording depends on the interpreter), \<open>identifier_error\<close> the message of the
  \<open>TypeError\<close> that \<open>sql.Identifier\<close> raises on a name that is not a string (its
  wording depends on the driver).
\<close>

record conn_params =
  cp_dbname :: string
  cp_user :: string
  cp_password :: string
  cp_host :: string
  cp_port :: string

datatype event =
    Connect conn_params
  | SetAutocommit nat
  | Execute nat composable "pyval list"
  | Commit nat
  | Rollback nat
  | Close nat
  | Print string

datatype exec_outcome =
    ExecRaises string
  | ExecOk "string list" "pyval list list" int

record env =
  connect_error :: "event list \<Rightarrow> conn_params \<Rightarrow> string option"
  execute_outcome :: "event list \<Rightarrow> nat \<Rightarrow> composable \<Rightarrow> pyval list \<Rightarrow> exec_outcome"
  commit_error :: "event list \<Rightarrow> nat \<Rightarrow> string option"
  read_file :: "event list \<Rightarrow> string \<Rightarrow> string option"
  py_repr :: "pyval \<Rightarrow> string"
  zip_none_error :: string
  identifier_error :: string

datatype error =
    ValueError string
  | KeyError pyval
  | TypeError string
  | AttributeError string
  | FileNotFoundError string
  | DatabaseError string

text \<open>\<open>str(e)\<close>: the message; for a \<open>KeyError\<close> the \<open>repr\<close> of the key.\<close>

fun exc_str :: "env \<Rightarrow> error \<Rightarrow> string" where
  "exc_str env (ValueError m) = m"
| "exc_str env (KeyError k) = py_repr env k"
| "exc_str env (TypeError m) = m"
| "exc_str env (AttributeError m) = m"
| "exc_str env (FileNotFoundError m) = m"
| "exc_str env (DatabaseError m) = m"

definition psycopg2_connect ::
  "env \<Rightarrow> event list \<Rightarrow> conn_params \<Rightarrow> (error + nat) \<times> event list" where
  "psycopg2_connect env w ps =
     (case connect_error env w ps of
        Some m \<Rightarrow> (Inl (DatabaseError m), w @ [Connect ps])
      | None \<Rightarrow> (Inr (length w), w @ [Connect ps]))"

section \<open>\<open>orm/database.py\<close>: the class \<open>Database\<close>\<close>

text \<open>
  The module \<open>config\<close> is not among the sources; its five constants are a parameter.
\<close>

record config =
  DB_NAME :: string
  DB_USER :: string
  DB_PASSWORD :: string
  DB_HOST :: string
  DB_PORT :: string

text \<open>
  The attributes of a \<open>Database\<close> object. \<open>__new__\<close> writes \<open>__initialized\<close> inside the
  class body, which Python stores as \<open>_Database__initialized\<close>; \<open>__init__\<close> writes
  \<open>_initialized\<close>, another attribute. \<open>_connection\<close> is absent until \<open>__init__\<close> has
  connected.
\<close>

record database =
  connection_attr :: "nat option"
  mangled_initialized :: bool
  initialized_attr :: "bool option"

text \<open>
  The process state: the class attribute \<open>Database._instance\<close> (the one object, once
  made) and the trace.
\<close>

record process =
  instance_attr :: "database option"
  trace :: "event list"

text \<open>
  \<open>Database.__new__\<close>: an object has no \<open>__bool__\<close> or \<open>__len__\<close>, so
  \<open>not cls._instance\<close> holds exactly when \<open>_instance\<close> is \<open>None\<close>. The result is the
  object, which is also the new value of \<open>_instance\<close>.
\<close>

definition Database_new :: "database option \<Rightarrow> database" where
  "Database_new inst =
     (case inst of
        None \<Rightarrow> \<lparr>connection_attr = None, mangled_initialized = False, initialized_attr = None\<rparr>
      | Some d \<Rightarrow> d)"

definition Database_init ::
  "env \<Rightarrow> config \<Rightarrow> database \<Rightarrow> event list \<Rightarrow> (error + database) \<times> event list" where
  "Database_init env cfg self w =
     (case psycopg2_connect env w
             \<lparr>cp_dbname = DB_NAME cfg, cp_user = DB_USER cfg, cp_password = DB_PASSWORD cfg,
              cp_host = DB_HOST cfg, cp_port = DB_PORT cfg\<rparr> of
        (Inl e, w1) \<Rightarrow> (Inl e, w1)
      | (Inr c, w1) \<Rightarrow>
          (Inr (self\<lparr>connection_attr := Some c, initialized_attr := Some True\<rparr>), w1))"

text \<open>
  The expression \<open>Database()\<close>: Python calls \<open>__new__\<close> and then, the result being a
  \<open>Database\<close>, \<open>__init__\<close> on it, at every call.
\<close>

definition Database_call :: "env \<Rightarrow> config \<Rightarrow> process \<Rightarrow> (error + database) \<times> process" where
  "Database_call env cfg p =
     (let self = Database_new (instance_attr p)
      in case Database_init env cfg self (trace p) of
           (Inl e, w1) \<Rightarrow> (Inl e, \<lparr>instance_attr = Some self, trace = w1\<rparr>)
         | (Inr self1, w1) \<Rightarrow> (Inr self1, \<lparr>instance_attr = Some self1, trace = w1\<rparr>))"

text \<open>The property \<open>connection\<close>, and \<open>commit\<close> and \<open>rollback\<close>.\<close>

definition no_connection_message :: string where
  "no_connection_message =
     [CHR 0x27] @ ''Database'' @ [CHR 0x27] @ '' object has no attribute ''
     @ [CHR 0x27] @ ''_connection'' @ [CHR 0x27]"

definition Database_connection :: "database \<Rightarrow> error + nat" where
  "Database_connection self =
     (case connection_attr self of
        None \<Rightarrow> Inl (AttributeError no_connection_message)
      | Some c \<Rightarrow> Inr c)"

definition Database_commit ::
  "env \<Rightarrow> database \<Rightarrow> event list \<Rightarrow> (error + unit) \<times> event list" where
  "Database_commit env self w =
     (case Database_connection self of
        Inl e \<Rightarrow> (Inl e, w)
      | Inr c \<Rightarrow>
          (case commit_error env w c of
             Some m \<Rightarrow> (Inl (DatabaseError m), w @ [Commit c])
           | None \<Rightarrow> (Inr (), w @ [Commit c])))"

definition Database_rollback :: "database \<Rightarrow> event list \<Rightarrow> (error + unit) \<times> event list" where
  "Database_rollback self w =
     (case Database_connection self of
        Inl e \<Rightarrow> (Inl e, w)
      | Inr c \<Rightarrow> (Inr (), w @ [Rollback c]))"

subsection \<open>\<open>insert_record\<close>\<close>

text \<open>
  The body of the \<open>try\<close>: the value of \<open>inserted_record\<close> when the block is left, the
  exception that left it (if any), and the trace. \<open>fetchone()\<close> returns \<open>None\<close> when no
  row came back, and \<open>zip\<close> then raises a \<open>TypeError\<close>.
\<close>

definition insert_record_try ::
  "env \<Rightarrow> database \<Rightarrow> event list \<Rightarrow> composable \<Rightarrow> pyval list \<Rightarrow> bool
     \<Rightarrow> row \<times> error option \<times> event list" where
  "insert_record_try env self w sql_statement params autocommit =
     (case Database_connection self of
        Inl e \<Rightarrow> ([], Some e, w)
      | Inr c \<Rightarrow>
          (let w1 = w @ [Execute c sql_statement params]
           in case execute_outcome env w c sql_statement params of
                ExecRaises m \<Rightarrow> ([], Some (DatabaseError m), w1)
              | ExecOk description rows rowcount \<Rightarrow>
                  (case rows of
                     [] \<Rightarrow> ([], Some (TypeError (zip_none_error env)), w1)
                   | record_values # _ \<Rightarrow>
                       (let inserted_record = dict_of (zip description record_values)
                        in if autocommit
                           then (case Database_commit env self w1 of
                                   (Inl e, w2) \<Rightarrow> (inserted_record, Some e, w2)
                                 | (Inr _, w2) \<Rightarrow> (inserted_record, None, w2))
                           else (inserted_record, None, w1)))))"

definition insert_record ::
  "env \<Rightarrow> database \<Rightarrow> event list \<Rightarrow> string \<Rightarrow> string list \<Rightarrow> pyval list \<Rightarrow> bool
     \<Rightarrow> (error + row) \<times> event list" where
  "insert_record env self w table columns values autocommit =
     (let record = insert_record_dict columns values;
          sql_statement = insert_sql_statement table record
      in case insert_record_try env self w sql_statement (dict_values record) autocommit of
           (inserted_record, None, w1) \<Rightarrow> (Inr inserted_record, w1)
         | (inserted_record, Some e, w1) \<Rightarrow>
             (case Database_rollback self w1 of
                (Inl e1, w2) \<Rightarrow> (Inl e1, w2)
              | (Inr _, w2) \<Rightarrow>
                  (Inr inserted_record,
                   w2 @ [Print (''[ERROR] insert_record failed: '' @ exc_str env e)])))"

subsection \<open>\<open>select_records\<close>\<close>

text \<open>\<open>where_values if where_values else []\<close>\<close>

definition select_records ::
  "env \<Rightarrow> database \<Rightarrow> event list \<Rightarrow> string \<Rightarrow> columns_arg \<Rightarrow> string option
     \<Rightarrow> pyval list option \<Rightarrow> (error + row list) \<times> event list" where
  "select_records env self w table columns where_clause where_values =
     (let query = select_sql_statement table columns where_clause;
          params = (case where_values of None \<Rightarrow> [] | Some vs \<Rightarrow> vs)
      in case Database_connection self of
           Inl e \<Rightarrow> (Inl e, w)
         | Inr c \<Rightarrow>
             (let w1 = w @ [Execute c query params]
              in case execute_outcome env w c query params of
                   ExecRaises m \<Rightarrow> (Inl (DatabaseError m), w1)
                 | ExecOk records_columns records_values rowcount \<Rightarrow>
                     (Inr (map (\<lambda>values. dict_of (zip records_columns values)) records_values),
                      w1)))"

subsection \<open>\<open>update_record\<close>\<close>

definition update_record ::
  "env \<Rightarrow> database \<Rightarrow> event list \<Rightarrow> string \<Rightarrow> string list \<Rightarrow> pyval list \<Rightarrow> string
     \<Rightarrow> pyval list \<Rightarrow> bool \<Rightarrow> (error + int) \<times> event list" where
  "update_record env self w table columns values where_clause where_values autocommit =
     (if length columns \<noteq> length values
      then (Inl (ValueError ''The number of columns must match the number of values.''), w)
      else
        (let query = update_sql_statement table columns where_clause;
             params = values @ where_values
         in case Database_connection self of
              Inl e \<Rightarrow> (Inl e, w)
            | Inr c \<Rightarrow>
                (let w1 = w @ [Execute c query params]
                 in case execute_outcome env w c query params of
                      ExecRaises m \<Rightarrow> (Inl (DatabaseError m), w1)
                    | ExecOk description rows affected_rows \<Rightarrow>
                        if autocommit
                        then (case Database_commit env self w1 of
                                (Inl e, w2) \<Rightarrow> (Inl e, w2)
                              | (Inr _, w2) \<Rightarrow> (Inr affected_rows, w2))
                        else (Inr affected_rows, w1))))"

section \<open>\<open>orm/base.py\<close>: the class \<open>BaseModel\<close>\<close>

text \<open>
  A model class is its three class attributes and its constructor: \<open>init cls kwargs\<close>
  is the \<open>__dict__\<close> of the object that \<open>cls(**kwargs)\<close> builds, or the exception the
  constructor raises. A model instance is its \<open>__dict__\<close>. The class attribute
  \<open>database\<close> is the \<open>Database\<close> object, passed as \<open>db\<close>.
\<close>

record model_class =
  table_name :: string
  table_columns :: "string list"
  table_id :: "string list"
  init :: "row \<Rightarrow> error + row"

text \<open>\<open>BaseModel.__init__(self, **kwargs): pass\<close> stores nothing.\<close>

definition BaseModel_init :: "row \<Rightarrow> error + row" where
  "BaseModel_init kwargs = Inr []"

text \<open>
  The property \<open>dict_record\<close>. A property is found on the class before the instance
  \<open>__dict__\<close> is looked at, so no instance attribute can stand in for it.
\<close>

definition dict_record :: "row \<Rightarrow> row" where
  "dict_record self = dict_of (filter (\<lambda>cv. \<not> startswith_underscore (fst cv)) self)"

text \<open>
  \<open>self.table_name\<close>, \<open>self.table_id\<close> and \<open>self.database\<close> name plain class
  attributes: Python looks in the instance \<open>__dict__\<close> first and in the class after it.
\<close>

definition self_attribute :: "row \<Rightarrow> string \<Rightarrow> pyval \<Rightarrow> pyval" where
  "self_attribute self name class_value =
     (case map_of self name of Some v \<Rightarrow> v | None \<Rightarrow> class_value)"

definition squote :: "string \<Rightarrow> string" where
  "squote s = [CHR 0x27] @ s @ [CHR 0x27]"

fun type_name :: "pyval \<Rightarrow> string" where
  "type_name PNone = ''NoneType''"
| "type_name (PBool b) = ''bool''"
| "type_name (PInt i) = ''int''"
| "type_name (PStr s) = ''str''"
| "type_name (PList xs) = ''list''"

text \<open>
  \<open>for col_id in value\<close>: a list yields its elements, a string its characters, and
  the other values are not iterable.
\<close>

fun py_iter :: "pyval \<Rightarrow> error + pyval list" where
  "py_iter (PList xs) = Inr xs"
| "py_iter (PStr s) = Inr (map (\<lambda>c. PStr [c]) s)"
| "py_iter v = Inl (TypeError (squote (type_name v) @ '' object is not iterable''))"

text \<open>
  \<open>record[col_id]\<close> on a mapping whose keys are column names: a list is not
  hashable, and a key that is no column name is missing.
\<close>

fun dict_getitem :: "row \<Rightarrow> pyval \<Rightarrow> error + pyval" where
  "dict_getitem record (PStr s) =
     (case map_of record s of
        None \<Rightarrow> Inl (KeyError (PStr s))
      | Some v \<Rightarrow> Inr v)"
| "dict_getitem record (PList xs) = Inl (TypeError (''unhashable type: '' @ squote ''list''))"
| "dict_getitem record v = Inl (KeyError v)"

text \<open>The loop of \<open>dump\<close>: it stops at the first key that raises.\<close>

fun dump_record_id :: "row \<Rightarrow> pyval list \<Rightarrow> error + pyval list" where
  "dump_record_id record [] = Inr []"
| "dump_record_id record (col_id # rest) =
     (case dict_getitem record col_id of
        Inl e \<Rightarrow> Inl e
      | Inr v \<Rightarrow>
          (case dump_record_id record rest of
             Inl e \<Rightarrow> Inl e
           | Inr vs \<Rightarrow> Inr (v # vs)))"

text \<open>
  \<open>dump\<close>. An instance attribute \<open>database\<close> is a plain value and has no method
  \<open>insert_record\<close>. \<open>insert_record\<close> passes its table to \<open>sql.Identifier\<close> before the
  \<open>try\<close>, which raises when the table is not a string.
\<close>

definition dump ::
  "env \<Rightarrow> model_class \<Rightarrow> database \<Rightarrow> event list \<Rightarrow> row \<Rightarrow> (error + pyval list) \<times> event list" where
  "dump env cls db w self =
     (case map_of self ''database'' of
        Some v \<Rightarrow>
          (Inl (AttributeError
                  (squote (type_name v) @ '' object has no attribute ''
                   @ squote ''insert_record'')), w)
      | None \<Rightarrow>
          (case self_attribute self ''table_name'' (PStr (table_name cls)) of
             PStr table \<Rightarrow>
               (case insert_record env db w table
                       (dict_keys (dict_record self)) (dict_values (dict_record self)) False of
                  (Inl e, w1) \<Rightarrow> (Inl e, w1)
                | (Inr record, w1) \<Rightarrow>
                    (case py_iter (self_attribute self ''table_id''
                                     (PList (map PStr (table_id cls)))) of
                       Inl e \<Rightarrow> (Inl e, w1)
                     | Inr col_ids \<Rightarrow> (dump_record_id record col_ids, w1)))
           | v \<Rightarrow> (Inl (TypeError (identifier_error env)), w)))"

text \<open>
  An instance shadows nothing when none of the three class attributes that \<open>dump\<close>
  reads through \<open>self\<close> is also an instance attribute.
\<close>

definition no_shadowing :: "row \<Rightarrow> bool" where
  "no_shadowing self \<longleftrightarrow>
     map_of self ''database'' = None
   \<and> map_of self ''table_name'' = None
   \<and> map_of self ''table_id'' = None"

text \<open>\<open>' AND '.join([f'{col} = %s' for col in cls.table_id])\<close>\<close>

definition id_where_clause :: "model_class \<Rightarrow> string" where
  "id_where_clause cls = str_join '' AND '' (map (\<lambda>col. col @ '' = %s'') (table_id cls))"

definition not_found_message :: "env \<Rightarrow> pyval list \<Rightarrow> string" where
  "not_found_message env record_id =
     ''Record ID: '' @ py_repr env (PList record_id) @ '' not found.''"

definition fetch_failed_message :: "env \<Rightarrow> error \<Rightarrow> string" where
  "fetch_failed_message env e =
     ''Failed to fetch record from database. Error: '' @ exc_str env e"

definition from_database_id ::
  "env \<Rightarrow> model_class \<Rightarrow> database \<Rightarrow> event list \<Rightarrow> pyval list \<Rightarrow> (error + row) \<times> event list" where
  "from_database_id env cls db w record_id =
     (if length record_id \<noteq> length (table_id cls)
      then (Inl (ValueError
                  (''Record ID ('' @ py_repr env (PList record_id)
                   @ '') does not match table ID (''
                   @ py_repr env (PList (map PStr (table_id cls))) @ '').'')), w)
      else
        (case select_records env db w (table_name cls) (ColumnStr ''*'')
                (Some (id_where_clause cls)) (Some record_id) of
           (Inl e, w1) \<Rightarrow> (Inl (ValueError (fetch_failed_message env e)), w1)
         | (Inr record, w1) \<Rightarrow>
             (case record of
                r # _ \<Rightarrow> (init cls r, w1)
              | [] \<Rightarrow> (Inl (ValueError (not_found_message env record_id)), w1))))"

section \<open>\<open>database_config/initialize.py\<close>\<close>

text \<open>
  A query given to \<open>cursor.execute\<close> as a plain string is emitted as it is, like
  \<open>SQL\<close> of that string.
\<close>

definition database_exists ::
  "env \<Rightarrow> event list \<Rightarrow> nat \<Rightarrow> string \<Rightarrow> (error + bool) \<times> event list" where
  "database_exists env w conn dbname =
     (let query = SQL ''SELECT 1 FROM pg_database WHERE datname = %s;'';
          params = [PStr dbname];
          w1 = w @ [Execute conn query params]
      in case execute_outcome env w conn query params of
           ExecRaises m \<Rightarrow> (Inl (DatabaseError m), w1)
         | ExecOk description rows rowcount \<Rightarrow> (Inr (length rows > 0), w1))"

definition create_database ::
  "env \<Rightarrow> event list \<Rightarrow> nat \<Rightarrow> string \<Rightarrow> bool \<Rightarrow> (error + unit) \<times> event list" where
  "create_database env w conn dbname verbose =
     (let query = SQL (''CREATE DATABASE '' @ dbname);
          w1 = w @ [Execute conn query []]
      in case execute_outcome env w conn query [] of
           ExecRaises m \<Rightarrow> (Inl (DatabaseError m), w1)
         | ExecOk description rows rowcount \<Rightarrow>
             (Inr (), if verbose then w1 @ [Print ''Database created''] else w1))"

definition apply_schema ::
  "env \<Rightarrow> event list \<Rightarrow> nat \<Rightarrow> string \<Rightarrow> (error + unit) \<times> event list" where
  "apply_schema env w conn schema_path =
     (case read_file env w schema_path of
        None \<Rightarrow> (Inl (FileNotFoundError (''Schema '' @ schema_path @ '' does not exist'')), w)
      | Some SQL_SCHEMA \<Rightarrow>
          (let w1 = w @ [Execute conn (SQL SQL_SCHEMA) []]
           in case execute_outcome env w conn (SQL SQL_SCHEMA) [] of
                ExecRaises m \<Rightarrow> (Inl (DatabaseError m), w1)
              | ExecOk description rows rowcount \<Rightarrow> (Inr (), w1 @ [Print ''Schema applied''])))"

definition initialize_database ::
  "env \<Rightarrow> event list \<Rightarrow> string \<Rightarrow> string \<Rightarrow> string \<Rightarrow> string \<Rightarrow> string
     \<Rightarrow> (error + unit) \<times> event list" where
  "initialize_database env w dbname user password host port =
     (case psycopg2_connect env w
             \<lparr>cp_dbname = ''postgres'', cp_user = user, cp_password = password,
              cp_host = host, cp_port = port\<rparr> of
        (Inl e, w1) \<Rightarrow> (Inl e, w1)
      | (Inr postgres_conn, w1) \<Rightarrow>
          (let w2 = w1 @ [SetAutocommit postgres_conn]
           in case database_exists env w2 postgres_conn dbname of
                (Inl e, w3) \<Rightarrow> (Inl e, w3)
              | (Inr already_exists, w3) \<Rightarrow>
                  (case (if \<not> already_exists
                         then (case create_database env w3 postgres_conn dbname True of
                                 (Inl e, w4) \<Rightarrow> (Inl e, w4)
                               | (Inr _, w4) \<Rightarrow> (Inr True, w4))
                         else (Inr False, w3)) of
                     (Inl e, w4) \<Rightarrow> (Inl e, w4)
                   | (Inr apply_schema_flag, w4) \<Rightarrow>
                       (let w5 = w4 @ [Close postgres_conn]
                        in if apply_schema_flag
                           then (case psycopg2_connect env w5
                                        \<lparr>cp_dbname = dbname, cp_user = user,
                                         cp_password = password, cp_host = host,
                                         cp_port = port\<rparr> of
                                   (Inl e, w6) \<Rightarrow> (Inl e, w6)
                                 | (Inr db_conn, w6) \<Rightarrow>
                                     apply_schema env (w6 @ [SetAutocommit db_conn]) db_conn
                                       ''database_config/schema.sql'')
                           else (Inr (), w5)))))"

section \<open>The bootstrap scenario\<close>

text \<open>
  What "the database exists" means to the bootstrap routine is what the server answers
  to its catalogue query. A cooperative server accepts every connection, answers the
  catalogue query for \<open>dbname\<close> with a row exactly when a \<open>CREATE DATABASE\<close> for that
  name has been executed before, executes that statement and the schema, and the schema
  file is there to read.
\<close>

definition database_created :: "string \<Rightarrow> event list \<Rightarrow> bool" where
  "database_created dbname h =
     list_ex (\<lambda>ev. case ev of
                     Execute c q ps \<Rightarrow> q = SQL (''CREATE DATABASE '' @ dbname)
                   | _ \<Rightarrow> False) h"

definition cooperative_server :: "env \<Rightarrow> string \<Rightarrow> string \<Rightarrow> bool" where
  "cooperative_server env dbname schema \<longleftrightarrow>
     (\<forall>h ps. connect_error env h ps = None)
   \<and> (\<forall>h c. \<exists>d rows n.
          execute_outcome env h c (SQL ''SELECT 1 FROM pg_database WHERE datname = %s;'')
            [PStr dbname] = ExecOk d rows n
        \<and> (rows \<noteq> [] \<longleftrightarrow> database_created dbname h))
   \<and> (\<forall>h c. \<exists>d rows n.
          execute_outcome env h c (SQL (''CREATE DATABASE '' @ dbname)) [] = ExecOk d rows n)
   \<and> (\<forall>h. read_file env h ''database_config/schema.sql'' = Some schema)
   \<and> (\<forall>h c. \<exists>d rows n. execute_outcome env h c (SQL schema) [] = ExecOk d rows n)"

text \<open>
  The calls of a run that finds the database absent, and of a run that finds it
  present; \<open>n\<close> is the length of the trace when the run starts.
\<close>

definition first_run_events ::
  "nat \<Rightarrow> string \<Rightarrow> string \<Rightarrow> string \<Rightarrow> string \<Rightarrow> string \<Rightarrow> string \<Rightarrow> event list" where
  "first_run_events n dbname user password host port schema =
     [Connect \<lparr>cp_dbname = ''postgres'', cp_user = user, cp_password = password,
               cp_host = host, cp_port = port\<rparr>,
      SetAutocommit n,
      Execute n (SQL ''SELECT 1 FROM pg_database WHERE datname = %s;'') [PStr dbname],
      Execute n (SQL (''CREATE DATABASE '' @ dbname)) [],
      Print ''Database created'',
      Close n,
      Connect \<lparr>cp_dbname = dbname, cp_user = user, cp_password = password,
               cp_host = host, cp_port = port\<rparr>,
      SetAutocommit (n + 6),
      Execute (n + 6) (SQL schema) [],
      Print ''Schema applied'']"

definition second_run_events ::
  "nat \<Rightarrow> string \<Rightarrow> string \<Rightarrow> string \<Rightarrow> string \<Rightarrow> string \<Rightarrow> event list" where
  "second_run_events n dbname user password host port =
     [Connect \<lparr>cp_dbname = ''postgres'', cp_user = user, cp_password = password,
               cp_host = host, cp_port = port\<rparr>,
      SetAutocommit n,
      Execute n (SQL ''SELECT 1 FROM pg_database WHERE datname = %s;'') [PStr dbname],
      Close n]"

section \<open>Concrete environments, classes and instances\<close>

text \<open>
  The inputs at which the theorems below are evaluated. \<open>users_env\<close> is a server on
  which every statement returns the row \<open>(1, 'Alice')\<close> of a table with the columns
  \<open>id\<close> and \<open>name\<close>; the others differ from it in one answer each.
\<close>

definition opaque_repr :: "pyval \<Rightarrow> string" where
  "opaque_repr v = ''<repr>''"

definition example_config :: config where
  "example_config =
     \<lparr>DB_NAME = ''cars'', DB_USER = ''scraper'', DB_PASSWORD = ''secret'',
      DB_HOST = ''localhost'', DB_PORT = ''5432''\<rparr>"

definition example_params :: conn_params where
  "example_params =
     \<lparr>cp_dbname = ''cars'', cp_user = ''scraper'', cp_password = ''secret'',
      cp_host = ''localhost'', cp_port = ''5432''\<rparr>"

definition users_env :: env where
  "users_env =
     \<lparr>connect_error = (\<lambda>h ps. None),
      execute_outcome = (\<lambda>h c q ps. ExecOk [''id'', ''name''] [[PInt 1, PStr ''Alice'']] 1),
      commit_error = (\<lambda>h c. None),
      read_file = (\<lambda>h path. None),
      py_repr = opaque_repr,
      zip_none_error = ''zip argument #2 must support iteration'',
      identifier_error = ''SQL identifier parts must be strings''\<rparr>"

definition failing_env :: env where
  "failing_env =
     users_env\<lparr>execute_outcome := (\<lambda>h c q ps. ExecRaises ''relation does not exist'')\<rparr>"

definition commit_failing_env :: env where
  "commit_failing_env = users_env\<lparr>commit_error := (\<lambda>h c. Some ''connection lost'')\<rparr>"

definition empty_table_env :: env where
  "empty_table_env =
     users_env\<lparr>execute_outcome := (\<lambda>h c q ps. ExecOk [''id'', ''name''] [] 0)\<rparr>"

definition bootstrap_env :: env where
  "bootstrap_env =
     users_env
       \<lparr>execute_outcome := (\<lambda>h c q ps.
          if q = SQL ''SELECT 1 FROM pg_database WHERE datname = %s;''
          then ExecOk [''?column?''] (if database_created ''cars'' h then [[PInt 1]] else []) 0
          else ExecOk [] [] 0),
        read_file := (\<lambda>h path. Some ''CREATE TABLE car (id serial PRIMARY KEY);'')\<rparr>"




definition connected_db :: database where
  "connected_db =
     \<lparr>connection_attr = Some 0, mangled_initialized = False, initialized_attr = Some True\<rparr>"

text \<open>
  A model class that sets the three class attributes and inherits
  \<open>BaseModel.__init__\<close>, and one whose constructor stores every keyword argument as an
  attribute.
\<close>

definition user_model :: model_class where
  "user_model =
     \<lparr>table_name = ''users'', table_columns = [''id'', ''name''], table_id = [''id''],
      init = BaseModel_init\<rparr>"



definition alice :: row where
  "alice = [(''name'', PStr ''Alice''), (''_cache'', PInt 0)]"


section \<open>Dictionaries and composed statements\<close>

lemma dict_set_keys: "fst ` set (dict_set k v d) = insert k (fst ` set d)"
  by (induction d) auto

lemma dict_set_subset: "set (dict_set k v d) \<subseteq> insert (k, v) (set d)"
  by (induction d) auto

lemma foldl_dict_set_keys:
  "fst ` set (foldl (\<lambda>d kv. dict_set (fst kv) (snd kv) d) acc kvs)
     = fst ` set acc \<union> fst ` set kvs"
  by (induction kvs arbitrary: acc) (auto simp: dict_set_keys)

lemma foldl_dict_set_subset:
  "set (foldl (\<lambda>d kv. dict_set (fst kv) (snd kv) d) acc kvs) \<subseteq> set acc \<union> set kvs"
proof (induction kvs arbitrary: acc)
  case Nil
  then show ?case by simp
next
  case (Cons kv kvs)
  have "set (dict_set (fst kv) (snd kv) acc) \<subseteq> insert kv (set acc)"
    using dict_set_subset [of "fst kv" "snd kv" acc] by simp
  with Cons.IH [of "dict_set (fst kv) (snd kv) acc"] show ?case by auto
qed

lemma dict_of_keys: "fst ` set (dict_of kvs) = fst ` set kvs"
  by (simp add: dict_of_def foldl_dict_set_keys)

lemma dict_of_subset: "set (dict_of kvs) \<subseteq> set kvs"
  using foldl_dict_set_subset [of "[]" kvs] by (simp add: dict_of_def)

lemma identifiers_sql_join_Identifier:
  "identifiers (sql_join (SQL sep) (map Identifier cs)) = cs"
proof (cases cs)
  case Nil
  then show ?thesis by simp
next
  case (Cons c rest)
  have "concat (map identifiers (concat (map (\<lambda>i. [SQL sep, i]) (map Identifier rest)))) = rest"
    by (induction rest) auto
  with Cons show ?thesis by simp
qed

lemma identifiers_sql_join_Placeholder:
  "identifiers (sql_join (SQL sep) (replicate n Placeholder)) = []"
proof (cases n)
  case 0
  then show ?thesis by simp
next
  case (Suc m)
  have "concat (map identifiers (concat (map (\<lambda>i. [SQL sep, i]) (replicate m Placeholder)))) = []"
    by (induction m) auto
  with Suc show ?thesis by simp
qed

lemma placeholders_sql_join_Identifier:
  "placeholders (sql_join (SQL sep) (map Identifier cs)) = 0"
proof (cases cs)
  case Nil
  then show ?thesis by simp
next
  case (Cons c rest)
  have "sum_list (map placeholders (concat (map (\<lambda>i. [SQL sep, i]) (map Identifier rest)))) = 0"
    by (induction rest) auto
  with Cons show ?thesis by simp
qed

lemma placeholders_sql_join_Placeholder:
  "placeholders (sql_join (SQL sep) (replicate n Placeholder)) = n"
proof (cases n)
  case 0
  then show ?thesis by simp
next
  case (Suc m)
  have "sum_list (map placeholders (concat (map (\<lambda>i. [SQL sep, i]) (replicate m Placeholder)))) = m"
    by (induction m) auto
  with Suc show ?thesis by simp
qed

lemma as_string_sql_join_Identifier:
  "as_string q (sql_join (SQL sep) (map Identifier cs)) = str_join sep (map q cs)"
proof (induction cs rule: str_join.induct [of _ sep])
  case (1 sep)
  then show ?case by simp
next
  case (2 sep x)
  then show ?case by simp
next
  case (3 sep x y ys)
  then show ?case by simp
qed

lemma insert_statement_identifiers:
  "identifiers (insert_sql_statement table record) = table # dict_keys record"
  by (simp add: insert_sql_statement_def identifiers_sql_join_Identifier
        identifiers_sql_join_Placeholder)

lemma insert_statement_placeholders:
  "placeholders (insert_sql_statement table record) = length record"
  by (simp add: insert_sql_statement_def placeholders_sql_join_Identifier
        placeholders_sql_join_Placeholder)

section \<open>\<open>insert_record\<close>: the emitted statement\<close>

lemma insert_record_events:
  "\<exists>rest. snd (insert_record env db w table columns values autocommit) = w @ rest
     \<and> (\<forall>c q ps. Execute c q ps \<in> set rest \<longrightarrow>
            q = insert_sql_statement table (insert_record_dict columns values)
          \<and> ps = dict_values (insert_record_dict columns values))"
  by (auto simp: insert_record_def insert_record_try_def Database_rollback_def
        Database_commit_def Database_connection_def Let_def
      split: option.splits sum.splits exec_outcome.splits list.splits prod.splits)

lemma insert_record_dict_keys:
  "set (dict_keys (insert_record_dict columns values))
     = {col \<in> fst ` set (zip columns values). \<not> startswith_underscore col}"
  unfolding dict_keys_def insert_record_dict_def
  by (simp only: set_map dict_of_keys) auto

lemma insert_record_dict_pairs:
  "set (zip (dict_keys (insert_record_dict columns values))
            (dict_values (insert_record_dict columns values)))
     \<subseteq> set (zip columns values)"
proof -
  have "zip (dict_keys d) (dict_values d) = d" for d :: row
    by (simp add: dict_keys_def dict_values_def zip_map_fst_snd)
  then show ?thesis
    using dict_of_subset [of "filter (\<lambda>cv. \<not> startswith_underscore (fst cv)) (zip columns values)"]
    by (auto simp: insert_record_dict_def)
qed

text \<open>
  C5. Whatever columns and values \<open>insert_record\<close> is given, every statement it sends
  to the driver names, after the table, exactly the columns that do not begin with an
  underscore (and that have a value), none that does; it has one placeholder and one
  bound parameter per named column, and each parameter is the value that was paired
  with its column in the input. A column with a leading underscore is left out together
  with its value.
\<close>

theorem insert_record_excludes_private_columns:
  assumes "Execute c q ps \<in> set (drop (length w)
             (snd (insert_record env db w table columns values autocommit)))"
  shows "\<exists>cols. identifiers q = table # cols
           \<and> (\<forall>col \<in> set cols. \<not> startswith_underscore col)
           \<and> set cols = {col \<in> fst ` set (zip columns values). \<not> startswith_underscore col}
           \<and> placeholders q = length cols
           \<and> length ps = length cols
           \<and> set (zip cols ps) \<subseteq> set (zip columns values)"
proof -
  let ?rec = "insert_record_dict columns values"
  obtain rest where rest:
    "snd (insert_record env db w table columns values autocommit) = w @ rest"
    "\<forall>c q ps. Execute c q ps \<in> set rest \<longrightarrow>
        q = insert_sql_statement table ?rec \<and> ps = dict_values ?rec"
    using insert_record_events by blast
  from assms rest have q: "q = insert_sql_statement table ?rec"
    and ps: "ps = dict_values ?rec" by auto
  have "identifiers q = table # dict_keys ?rec"
    by (simp add: q insert_statement_identifiers)
  moreover have "\<forall>col \<in> set (dict_keys ?rec). \<not> startswith_underscore col"
    by (simp add: insert_record_dict_keys)
  moreover have "placeholders q = length (dict_keys ?rec)"
    by (simp add: q insert_statement_placeholders dict_keys_def)
  moreover have "length ps = length (dict_keys ?rec)"
    by (simp add: ps dict_keys_def dict_values_def)
  moreover have "set (zip (dict_keys ?rec) ps) \<subseteq> set (zip columns values)"
    unfolding ps by (rule insert_record_dict_pairs)
  ultimately show ?thesis
    using insert_record_dict_keys [of columns "values"] by blast
qed

theorem insert_record_excludes_private_columns_witness:
  "Execute 0 (insert_sql_statement ''users'' [(''name'', PStr ''Alice''), (''age'', PInt 30)])
      [PStr ''Alice'', PInt 30]
     \<in> set (drop (length ([] :: event list))
          (snd (insert_record users_env connected_db [] ''users''
                  [''name'', ''_cache'', ''age''] [PStr ''Alice'', PInt 0, PInt 30] False)))
   \<and> (\<exists>cols. identifiers
          (insert_sql_statement ''users'' [(''name'', PStr ''Alice''), (''age'', PInt 30)])
            = ''users'' # cols
        \<and> (\<forall>col \<in> set cols. \<not> startswith_underscore col)
        \<and> set cols = {col \<in> fst ` set (zip [''name'', ''_cache'', ''age'']
                                          [PStr ''Alice'', PInt 0, PInt 30]).
                        \<not> startswith_underscore col}
        \<and> placeholders
            (insert_sql_statement ''users'' [(''name'', PStr ''Alice''), (''age'', PInt 30)])
            = length cols
        \<and> length [PStr ''Alice'', PInt 30] = length cols
        \<and> set (zip cols [PStr ''Alice'', PInt 30])
            \<subseteq> set (zip [''name'', ''_cache'', ''age''] [PStr ''Alice'', PInt 0, PInt 30]))"
proof -
  have h: "Execute 0
      (insert_sql_statement ''users'' [(''name'', PStr ''Alice''), (''age'', PInt 30)])
      [PStr ''Alice'', PInt 30]
     \<in> set (drop (length ([] :: event list))
          (snd (insert_record users_env connected_db [] ''users''
                  [''name'', ''_cache'', ''age''] [PStr ''Alice'', PInt 0, PInt 30] False)))"
    by (simp add: insert_record_def insert_record_try_def Database_connection_def
        users_env_def connected_db_def startswith_underscore_def dict_keys_def dict_values_def
        insert_record_dict_def dict_of_def Let_def)
  from h insert_record_excludes_private_columns [OF h]
  show ?thesis by blast
qed

section \<open>\<open>insert_record\<close>: failures\<close>

text \<open>
  When the driver raises while the statement is executed, the transaction is rolled
  back, the error is printed and the empty mapping is returned; no error reaches the
  caller. The same happens when the statement executes but returns no row.
\<close>

lemma insert_record_execute_raises:
  assumes "connection_attr db = Some c"
      and "sql_statement = insert_sql_statement table (insert_record_dict columns values)"
      and "params = dict_values (insert_record_dict columns values)"
      and "execute_outcome env w c sql_statement params = ExecRaises m"
  shows "insert_record env db w table columns values autocommit
           = (Inr [], w @ [Execute c sql_statement params, Rollback c,
                           Print (''[ERROR] insert_record failed: '' @ m)])"
  using assms
  by (simp add: insert_record_def insert_record_try_def Database_connection_def
        Database_rollback_def Let_def)

lemma insert_record_no_row:
  assumes "connection_attr db = Some c"
      and "sql_statement = insert_sql_statement table (insert_record_dict columns values)"
      and "params = dict_values (insert_record_dict columns values)"
      and "execute_outcome env w c sql_statement params = ExecOk description [] rowcount"
  shows "insert_record env db w table columns values autocommit
           = (Inr [], w @ [Execute c sql_statement params, Rollback c,
                           Print (''[ERROR] insert_record failed: '' @ zip_none_error env)])"
  using assms
  by (simp add: insert_record_def insert_record_try_def Database_connection_def
        Database_rollback_def Let_def)

text \<open>
  C4. On a server where the INSERT executes and returns the row \<open>(1, 'Alice')\<close> but the
  commit raises \<open>connection lost\<close>, \<open>insert_record\<close> with \<open>autocommit = True\<close> rolls the
  transaction back and prints the error, as for every failure, but it returns the row
  mapping \<open>{id: 1, name: 'Alice'}\<close> and not the empty mapping that the docstring
  promises when the insertion fails.
\<close>

theorem insert_record_failed_commit_returns_row:
  "insert_record commit_failing_env connected_db [] ''users'' [''name''] [PStr ''Alice''] True
     = (Inr [(''id'', PInt 1), (''name'', PStr ''Alice'')],
        [Execute 0 (insert_sql_statement ''users'' [(''name'', PStr ''Alice'')]) [PStr ''Alice''],
         Commit 0,
         Rollback 0,
         Print ''[ERROR] insert_record failed: connection lost''])"
  by (simp add: insert_record_def insert_record_try_def Database_connection_def
        Database_rollback_def Database_commit_def commit_failing_env_def users_env_def
        connected_db_def startswith_underscore_def dict_keys_def dict_values_def
        insert_record_dict_def dict_of_def Let_def)

text \<open>
  C9. With \<open>autocommit = True\<close>, when the INSERT executes and returns a row but the
  commit that follows raises, \<open>insert_record\<close> rolls back, prints the error and still
  returns the mapping it had built from the returned row; that mapping is not empty as
  soon as the row has a column. So a non-empty result does not show that the row was
  committed. The witness is such an execution.
\<close>

theorem insert_record_commit_failure:
  assumes "connection_attr db = Some c"
      and "sql_statement = insert_sql_statement table (insert_record_dict columns values)"
      and "params = dict_values (insert_record_dict columns values)"
      and "execute_outcome env w c sql_statement params
             = ExecOk description (record_values # others) rowcount"
      and "commit_error env (w @ [Execute c sql_statement params]) c = Some m"
  shows "insert_record env db w table columns values True
           = (Inr (dict_of (zip description record_values)),
              w @ [Execute c sql_statement params, Commit c, Rollback c,
                   Print (''[ERROR] insert_record failed: '' @ m)])
         \<and> (description \<noteq> [] \<and> record_values \<noteq> []
              \<longrightarrow> dict_of (zip description record_values) \<noteq> [])"
proof -
  have "dict_of (zip description record_values) \<noteq> []"
    if "description \<noteq> []" "record_values \<noteq> []"
  proof -
    from that have "zip description record_values \<noteq> []"
      by (cases description; cases record_values) auto
    then have "fst ` set (dict_of (zip description record_values)) \<noteq> {}"
      by (simp add: dict_of_keys)
    then show ?thesis by auto
  qed
  then show ?thesis
    using assms
    by (simp add: insert_record_def insert_record_try_def Database_connection_def
          Database_rollback_def Database_commit_def Let_def)
qed

theorem insert_record_commit_failure_witness:
  "connection_attr connected_db = Some 0
   \<and> commit_error commit_failing_env
        [Connect example_params,
         Execute 0
           (insert_sql_statement ''users'' (insert_record_dict [''name''] [PStr ''Alice'']))
           (dict_values (insert_record_dict [''name''] [PStr ''Alice'']))] 0
       = Some ''connection lost''
   \<and> insert_record commit_failing_env connected_db [Connect example_params]
        ''users'' [''name''] [PStr ''Alice''] True
       = (Inr [(''id'', PInt 1), (''name'', PStr ''Alice'')],
          [Connect example_params,
           Execute 0
             (insert_sql_statement ''users'' (insert_record_dict [''name''] [PStr ''Alice'']))
             (dict_values (insert_record_dict [''name''] [PStr ''Alice''])),
           Commit 0, Rollback 0,
           Print ''[ERROR] insert_record failed: connection lost''])
   \<and> [(''id'', PInt 1), (''name'', PStr ''Alice'')] \<noteq> ([] :: row)"
proof -
  have c: "connection_attr connected_db = Some 0"
    by (simp add: connected_db_def)
  have e: "execute_outcome commit_failing_env [Connect example_params] 0
        (insert_sql_statement ''users'' (insert_record_dict [''name''] [PStr ''Alice'']))
        (dict_values (insert_record_dict [''name''] [PStr ''Alice'']))
       = ExecOk [''id'', ''name''] ([PInt 1, PStr ''Alice''] # []) 1"
    by (simp add: commit_failing_env_def users_env_def)
  have m: "commit_error commit_failing_env
        ([Connect example_params] @ [Execute 0
           (insert_sql_statement ''users'' (insert_record_dict [''name''] [PStr ''Alice'']))
           (dict_values (insert_record_dict [''name''] [PStr ''Alice'']))]) 0
       = Some ''connection lost''"
    by (simp add: commit_failing_env_def users_env_def)
  from c m insert_record_commit_failure [OF c refl refl e m]
  show ?thesis by (simp add: dict_of_def)
qed

section \<open>\<open>select_records\<close> and \<open>update_record\<close>\<close>

lemma select_records_events:
  "\<exists>rest. snd (select_records env db w table columns where_clause where_values) = w @ rest
     \<and> (\<forall>c q ps. Execute c q ps \<in> set rest \<longrightarrow>
            q = select_sql_statement table columns where_clause)"
  by (auto simp: select_records_def Database_connection_def Let_def
      split: option.splits sum.splits exec_outcome.splits)

text \<open>
  C10. Whatever the identifier quoting \<open>quote\<close> of the connection, every statement
  \<open>select_records\<close> sends renders as \<open>SELECT\<close>, the columns, \<open>FROM\<close>, the quoted table
  and the optional \<open>WHERE\<close> clause, where the columns are: for a string argument, any
  string and not only \<open>'*'\<close>, that string itself, untouched by \<open>quote\<close>; for a list, the
  quoted names joined by commas. Quoting is applied to the columns only when they come
  as a list.
\<close>

theorem select_records_columns_string_verbatim:
  assumes "Execute c query ps \<in> set (drop (length w)
             (snd (select_records env db w table columns where_clause where_values)))"
  shows "as_string quote query =
           ''SELECT ''
           @ (case columns of
                ColumnStr s \<Rightarrow> s
              | ColumnList cs \<Rightarrow> str_join '', '' (map quote cs))
           @ '' FROM '' @ quote table
           @ (case where_clause of
                None \<Rightarrow> []
              | Some wc \<Rightarrow> if wc = [] then [] else '' WHERE '' @ wc)"
proof -
  obtain rest where
    "snd (select_records env db w table columns where_clause where_values) = w @ rest"
    "\<forall>c q ps. Execute c q ps \<in> set rest \<longrightarrow>
        q = select_sql_statement table columns where_clause"
    using select_records_events by blast
  with assms have "query = select_sql_statement table columns where_clause" by auto
  then show ?thesis
    by (simp add: select_sql_statement_def select_columns_sql_def
          as_string_sql_join_Identifier
        split: columns_arg.splits option.splits)
qed

theorem select_records_columns_string_verbatim_witness:
  "Execute 0 (select_sql_statement ''users'' (ColumnStr ''name; --'') (Some ''id = %s''))
      [PInt 1]
     \<in> set (drop (length ([] :: event list))
          (snd (select_records users_env connected_db [] ''users'' (ColumnStr ''name; --'')
                  (Some ''id = %s'') (Some [PInt 1]))))
   \<and> as_string (\<lambda>s. ''<'' @ s @ ''>'')
        (select_sql_statement ''users'' (ColumnStr ''name; --'') (Some ''id = %s''))
       = ''SELECT name; -- FROM <users> WHERE id = %s''"
proof -
  have h: "Execute 0
      (select_sql_statement ''users'' (ColumnStr ''name; --'') (Some ''id = %s'')) [PInt 1]
     \<in> set (drop (length ([] :: event list))
          (snd (select_records users_env connected_db [] ''users'' (ColumnStr ''name; --'')
                  (Some ''id = %s'') (Some [PInt 1]))))"
    by (simp add: select_records_def Database_connection_def users_env_def connected_db_def
          Let_def)
  from h select_records_columns_string_verbatim [OF h, of "\<lambda>s. ''<'' @ s @ ''>''"]
  show ?thesis by simp
qed

text \<open>
  C7. When \<open>columns\<close> and \<open>values\<close> differ in length, \<open>update_record\<close> raises the
  \<open>ValueError\<close> and leaves the trace as it was: no statement has been handed to the
  driver and no other call has been made.
\<close>

theorem update_record_length_mismatch:
  assumes "length columns \<noteq> length values"
  shows "update_record env db w table columns values where_clause where_values autocommit
           = (Inl (ValueError ''The number of columns must match the number of values.''), w)"
  using assms by (simp add: update_record_def)

theorem update_record_length_mismatch_witness:
  "length [''name'', ''age''] \<noteq> length [PStr ''Alice'']
   \<and> update_record users_env connected_db [] ''users'' [''name'', ''age''] [PStr ''Alice'']
        ''id = %s'' [PInt 1] True
     = (Inl (ValueError ''The number of columns must match the number of values.''), [])"
proof -
  have h: "length [''name'', ''age''] \<noteq> length [PStr ''Alice'']" by simp
  from h update_record_length_mismatch [OF h]
  show ?thesis by blast
qed

section \<open>The connection of the singleton\<close>

lemma Database_call_connects:
  "trace (snd (Database_call env cfg p))
     = trace p @ [Connect \<lparr>cp_dbname = DB_NAME cfg, cp_user = DB_USER cfg,
                            cp_password = DB_PASSWORD cfg, cp_host = DB_HOST cfg,
                            cp_port = DB_PORT cfg\<rparr>]"
  by (simp add: Database_call_def Database_init_def psycopg2_connect_def Let_def
      split: option.splits)

lemma Database_call_fresh_connection:
  assumes "connect_error env (trace p)
             \<lparr>cp_dbname = DB_NAME cfg, cp_user = DB_USER cfg, cp_password = DB_PASSWORD cfg,
              cp_host = DB_HOST cfg, cp_port = DB_PORT cfg\<rparr> = None"
  shows "map_sum id connection_attr (fst (Database_call env cfg p))
           = Inr (Some (length (trace p)))"
  using assms
  by (simp add: Database_call_def Database_init_def psycopg2_connect_def Let_def)

text \<open>
  C1. In a fresh process on a reachable server, the first \<open>Database()\<close> connects and
  holds connection 0; the second \<open>Database()\<close> returns the same object but connects
  again and the object now holds connection 1: two connections have been established
  and the handle has changed. The claim, like the docstring of \<open>__init__\<close>, asks for one
  connection and one handle.
\<close>

theorem Database_second_call_reconnects:
  "map_sum id connection_attr
     (fst (Database_call users_env example_config \<lparr>instance_attr = None, trace = []\<rparr>))
     = Inr (Some 0)
   \<and> map_sum id connection_attr
       (fst (Database_call users_env example_config
          (snd (Database_call users_env example_config \<lparr>instance_attr = None, trace = []\<rparr>))))
     = Inr (Some 1)
   \<and> trace (snd (Database_call users_env example_config
          (snd (Database_call users_env example_config \<lparr>instance_attr = None, trace = []\<rparr>))))
     = [Connect example_params, Connect example_params]"
  by (simp add: Database_call_def Database_init_def Database_new_def psycopg2_connect_def
        users_env_def example_config_def example_params_def Let_def)

section \<open>\<open>dump\<close> and \<open>from_database_id\<close>\<close>














lemma dump_no_shadowing:
  assumes "no_shadowing self"
  shows "dump env cls db w self =
     (case insert_record env db w (table_name cls)
             (dict_keys (dict_record self)) (dict_values (dict_record self)) False of
        (Inl e, w1) \<Rightarrow> (Inl e, w1)
      | (Inr record, w1) \<Rightarrow> (dump_record_id record (map PStr (table_id cls)), w1))"
  using assms
  by (simp add: dump_def no_shadowing_def self_attribute_def split: prod.splits sum.splits)

text \<open>
  An instance attribute \<open>table_id\<close> stands in for the class attribute: with the
  instance attribute \<open>table_id = []\<close> on a class whose key column is \<open>id\<close>, the loop
  of \<open>dump\<close> runs over no key, and \<open>dump\<close> returns the empty list even after a failed
  insert.
\<close>

lemma dump_shadowed_table_id:
  "fst (dump failing_env user_model connected_db []
          [(''name'', PStr ''Alice''), (''table_id'', PList [])]) = Inr []"
  by (simp add: dump_def self_attribute_def insert_record_def insert_record_try_def
        Database_connection_def Database_rollback_def failing_env_def users_env_def
        connected_db_def user_model_def dict_record_def startswith_underscore_def
        dict_keys_def dict_values_def insert_record_dict_def dict_of_def Let_def)

text \<open>
  On a server where the INSERT raises, \<open>insert_record\<close> returns the empty mapping and
  \<open>dump\<close> of an instance of a class with the key column \<open>id\<close> raises
  \<open>KeyError('id')\<close>: it does not return.
\<close>

theorem dump_raises_after_failed_insert:
  "fst (insert_record failing_env connected_db [] (table_name user_model)
          (dict_keys (dict_record alice)) (dict_values (dict_record alice)) False) = Inr []
   \<and> fst (dump failing_env user_model connected_db [] alice) = Inl (KeyError (PStr ''id''))"
  by (simp add: dump_def self_attribute_def insert_record_def insert_record_try_def
        Database_connection_def
        Database_rollback_def failing_env_def users_env_def connected_db_def user_model_def
        alice_def dict_record_def startswith_underscore_def dict_keys_def dict_values_def
        insert_record_dict_def dict_of_def Let_def)

text \<open>
  C2, as amended. For an instance that shadows none of the class attributes, when the
  insert has failed, that is \<open>insert_record\<close> has returned the empty mapping, \<open>dump\<close>
  raises \<open>KeyError\<close> for the first key column of the class; it returns (the empty
  list) only when the class declares no key column.
\<close>

theorem dump_after_failed_insert:
  assumes "no_shadowing self"
      and "insert_record env db w (table_name cls)
             (dict_keys (dict_record self)) (dict_values (dict_record self)) False
           = (Inr [], w1)"
  shows "dump env cls db w self
           = (case table_id cls of
                [] \<Rightarrow> Inr []
              | col_id # rest \<Rightarrow> Inl (KeyError (PStr col_id)), w1)"
  using assms by (simp add: dump_no_shadowing split: list.splits)

theorem dump_after_failed_insert_witness:
  "no_shadowing alice
   \<and> insert_record failing_env connected_db [] (table_name user_model)
      (dict_keys (dict_record alice)) (dict_values (dict_record alice)) False
     = (Inr [], [Execute 0 (insert_sql_statement ''users'' [(''name'', PStr ''Alice'')])
                   [PStr ''Alice''],
                 Rollback 0,
                 Print ''[ERROR] insert_record failed: relation does not exist''])
   \<and> dump failing_env user_model connected_db [] alice
     = (Inl (KeyError (PStr ''id'')),
        [Execute 0 (insert_sql_statement ''users'' [(''name'', PStr ''Alice'')])
           [PStr ''Alice''],
         Rollback 0,
         Print ''[ERROR] insert_record failed: relation does not exist''])"
proof -
  have n: "no_shadowing alice"
    by (simp add: no_shadowing_def alice_def)
  have h: "insert_record failing_env connected_db [] (table_name user_model)
      (dict_keys (dict_record alice)) (dict_values (dict_record alice)) False
     = (Inr [], [Execute 0 (insert_sql_statement ''users'' [(''name'', PStr ''Alice'')])
                   [PStr ''Alice''],
                 Rollback 0,
                 Print ''[ERROR] insert_record failed: relation does not exist''])"
    by (simp add: insert_record_def insert_record_try_def Database_connection_def
        Database_rollback_def failing_env_def users_env_def connected_db_def user_model_def
        alice_def dict_record_def startswith_underscore_def dict_keys_def dict_values_def
        insert_record_dict_def dict_of_def Let_def)
  show ?thesis
    using n h dump_after_failed_insert [OF n h]
    by (simp add: user_model_def)
qed







lemma from_database_id_query_failure:
  assumes "length record_id = length (table_id cls)"
      and "select_records env db w (table_name cls) (ColumnStr ''*'')
             (Some (id_where_clause cls)) (Some record_id) = (Inl e, w1)"
  shows "from_database_id env cls db w record_id
           = (Inl (ValueError (fetch_failed_message env e)), w1)"
  using assms by (simp add: from_database_id_def)

lemma not_found_message_distinct:
  "not_found_message env record_id \<noteq> fetch_failed_message env2 e"
  by (simp add: not_found_message_def fetch_failed_message_def)

text \<open>
  C6. When the lookup by key is made (the number of key values matches the key columns)
  and returns no row, \<open>from_database_id\<close> raises the \<open>ValueError\<close> with the message
  \<open>Record ID: ... not found.\<close>; it returns no instance and no \<open>None\<close>. The error is
  never the one raised when the query itself fails: whatever the environment, class and
  key values of a call whose query raises, the two calls end in different errors. Both
  are \<open>ValueError\<close>s; they differ in their message.
\<close>

theorem from_database_id_not_found:
  assumes "length record_id = length (table_id cls)"
      and "select_records env db w (table_name cls) (ColumnStr ''*'')
             (Some (id_where_clause cls)) (Some record_id) = (Inr [], w1)"
  shows "from_database_id env cls db w record_id
           = (Inl (ValueError (not_found_message env record_id)), w1)
       \<and> (\<forall>env2 cls2 db2 w2 record_id2 e w3.
             length record_id2 = length (table_id cls2)
             \<and> select_records env2 db2 w2 (table_name cls2) (ColumnStr ''*'')
                 (Some (id_where_clause cls2)) (Some record_id2) = (Inl e, w3)
             \<longrightarrow> fst (from_database_id env2 cls2 db2 w2 record_id2)
                   \<noteq> fst (from_database_id env cls db w record_id))"
proof -
  have nf: "from_database_id env cls db w record_id
              = (Inl (ValueError (not_found_message env record_id)), w1)"
    using assms by (simp add: from_database_id_def)
  have "fst (from_database_id env2 cls2 db2 w2 record_id2)
          \<noteq> fst (from_database_id env cls db w record_id)"
    if "length record_id2 = length (table_id cls2)"
      and "select_records env2 db2 w2 (table_name cls2) (ColumnStr ''*'')
             (Some (id_where_clause cls2)) (Some record_id2) = (Inl e, w3)"
    for env2 cls2 db2 w2 record_id2 e w3
    using from_database_id_query_failure [OF that] nf
    by (simp add: not_found_message_distinct [symmetric])
  with nf show ?thesis by blast
qed

theorem from_database_id_not_found_witness:
  "from_database_id empty_table_env user_model connected_db [] [PInt 7]
     = (Inl (ValueError (''Record ID: '' @ opaque_repr (PList [PInt 7]) @ '' not found.'')),
        [Execute 0 (select_sql_statement ''users'' (ColumnStr ''*'') (Some ''id = %s''))
           [PInt 7]])
   \<and> fst (from_database_id failing_env user_model connected_db [] [PInt 7])
       \<noteq> fst (from_database_id empty_table_env user_model connected_db [] [PInt 7])"
proof -
  let ?w1 = "[Execute 0 (select_sql_statement ''users'' (ColumnStr ''*'') (Some ''id = %s''))
           [PInt 7]]"
  have l: "length [PInt 7] = length (table_id user_model)"
    by (simp add: user_model_def)
  have s: "select_records empty_table_env connected_db [] (table_name user_model)
             (ColumnStr ''*'') (Some (id_where_clause user_model)) (Some [PInt 7])
           = (Inr [], ?w1)"
    by (simp add: select_records_def Database_connection_def id_where_clause_def
        empty_table_env_def users_env_def connected_db_def user_model_def Let_def)
  have f: "select_records failing_env connected_db [] (table_name user_model)
             (ColumnStr ''*'') (Some (id_where_clause user_model)) (Some [PInt 7])
           = (Inl (DatabaseError ''relation does not exist''), ?w1)"
    by (simp add: select_records_def Database_connection_def id_where_clause_def
        failing_env_def users_env_def connected_db_def user_model_def Let_def)
  have r: "py_repr empty_table_env = opaque_repr"
    by (simp add: empty_table_env_def users_env_def)
  note t = from_database_id_not_found [OF l s]
  from t have a: "from_database_id empty_table_env user_model connected_db [] [PInt 7]
     = (Inl (ValueError (''Record ID: '' @ opaque_repr (PList [PInt 7]) @ '' not found.'')), ?w1)"
    by (simp add: not_found_message_def r)
  from t l f have b: "fst (from_database_id failing_env user_model connected_db [] [PInt 7])
       \<noteq> fst (from_database_id empty_table_env user_model connected_db [] [PInt 7])"
    by blast
  from a b show ?thesis by blast
qed

section \<open>The bootstrap routine\<close>

lemma psycopg2_connect_cooperative:
  assumes "cooperative_server env dbname schema"
  shows "psycopg2_connect env h ps = (Inr (length h), h @ [Connect ps])"
  using assms by (simp add: psycopg2_connect_def cooperative_server_def)

lemma database_exists_cooperative:
  assumes "cooperative_server env dbname schema"
  shows "database_exists env h c dbname
           = (Inr (database_created dbname h),
              h @ [Execute c (SQL ''SELECT 1 FROM pg_database WHERE datname = %s;'')
                     [PStr dbname]])"
proof -
  from assms obtain d rows n where
    "execute_outcome env h c (SQL ''SELECT 1 FROM pg_database WHERE datname = %s;'')
       [PStr dbname] = ExecOk d rows n"
    "rows \<noteq> [] \<longleftrightarrow> database_created dbname h"
    unfolding cooperative_server_def by metis
  then show ?thesis
    by (simp add: database_exists_def Let_def)
qed

lemma create_database_cooperative:
  assumes "cooperative_server env dbname schema"
  shows "create_database env h c dbname True
           = (Inr (), h @ [Execute c (SQL (''CREATE DATABASE '' @ dbname)) [],
                           Print ''Database created''])"
proof -
  from assms obtain d rows n where
    "execute_outcome env h c (SQL (''CREATE DATABASE '' @ dbname)) [] = ExecOk d rows n"
    unfolding cooperative_server_def by metis
  then show ?thesis
    by (simp add: create_database_def Let_def)
qed

lemma apply_schema_cooperative:
  assumes "cooperative_server env dbname schema"
  shows "apply_schema env h c ''database_config/schema.sql''
           = (Inr (), h @ [Execute c (SQL schema) [], Print ''Schema applied''])"
proof -
  from assms have "read_file env h ''database_config/schema.sql'' = Some schema"
    by (simp add: cooperative_server_def)
  moreover from assms obtain d rows n where
    "execute_outcome env h c (SQL schema) [] = ExecOk d rows n"
    unfolding cooperative_server_def by metis
  ultimately show ?thesis
    by (simp add: apply_schema_def Let_def)
qed

lemma initialize_database_absent:
  assumes "cooperative_server env dbname schema" and "\<not> database_created dbname w"
  shows "initialize_database env w dbname user password host port
           = (Inr (), w @ first_run_events (length w) dbname user password host port schema)"
proof -
  from assms(2) have "\<not> database_created dbname
      (w @ [Connect \<lparr>cp_dbname = ''postgres'', cp_user = user, cp_password = password,
                     cp_host = host, cp_port = port\<rparr>, SetAutocommit (length w)])"
    by (simp add: database_created_def)
  then show ?thesis
    by (simp add: initialize_database_def first_run_events_def Let_def
          psycopg2_connect_cooperative [OF assms(1)]
          database_exists_cooperative [OF assms(1)]
          create_database_cooperative [OF assms(1)]
          apply_schema_cooperative [OF assms(1)])
qed

lemma initialize_database_present:
  assumes "cooperative_server env dbname schema" and "database_created dbname w"
  shows "initialize_database env w dbname user password host port
           = (Inr (), w @ second_run_events (length w) dbname user password host port)"
proof -
  from assms(2) have "database_created dbname
      (w @ [Connect \<lparr>cp_dbname = ''postgres'', cp_user = user, cp_password = password,
                     cp_host = host, cp_port = port\<rparr>, SetAutocommit (length w)])"
    by (simp add: database_created_def)
  then show ?thesis
    by (simp add: initialize_database_def second_run_events_def Let_def
          psycopg2_connect_cooperative [OF assms(1)]
          database_exists_cooperative [OF assms(1)])
qed

text \<open>
  C8. On a cooperative server, starting from a trace in which the database has not been
  created, the first run of \<open>initialize_database\<close> returns normally after exactly the
  calls of \<open>first_run_events\<close>: it queries the catalogue, executes \<open>CREATE DATABASE\<close>
  once, connects to the new database and executes the schema file once. The second run,
  started where the first ended, returns normally after exactly the calls of
  \<open>second_run_events\<close>: it queries the catalogue and closes the connection; it neither
  creates the database nor executes the schema.
\<close>

theorem initialize_database_idempotent:
  assumes "cooperative_server env dbname schema" and "\<not> database_created dbname w"
  shows "initialize_database env w dbname user password host port
           = (Inr (), w @ first_run_events (length w) dbname user password host port schema)
       \<and> initialize_database env
            (w @ first_run_events (length w) dbname user password host port schema)
            dbname user password host port
           = (Inr (), w @ first_run_events (length w) dbname user password host port schema
                        @ second_run_events (length w + 10) dbname user password host port)"
proof -
  let ?w1 = "w @ first_run_events (length w) dbname user password host port schema"
  have "database_created dbname ?w1"
    by (simp add: database_created_def first_run_events_def)
  moreover have "length ?w1 = length w + 10"
    by (simp add: first_run_events_def)
  ultimately show ?thesis
    using initialize_database_absent [OF assms]
      initialize_database_present [OF assms(1), of ?w1 user password host port]
    by simp
qed

theorem initialize_database_idempotent_witness:
  "cooperative_server bootstrap_env ''cars'' ''CREATE TABLE car (id serial PRIMARY KEY);''
   \<and> \<not> database_created ''cars'' []
   \<and> initialize_database bootstrap_env [] ''cars'' ''scraper'' ''secret'' ''localhost'' ''5432''
       = (Inr (), first_run_events 0 ''cars'' ''scraper'' ''secret'' ''localhost'' ''5432''
                    ''CREATE TABLE car (id serial PRIMARY KEY);'')
   \<and> initialize_database bootstrap_env
        (first_run_events 0 ''cars'' ''scraper'' ''secret'' ''localhost'' ''5432''
           ''CREATE TABLE car (id serial PRIMARY KEY);'')
        ''cars'' ''scraper'' ''secret'' ''localhost'' ''5432''
       = (Inr (), first_run_events 0 ''cars'' ''scraper'' ''secret'' ''localhost'' ''5432''
                    ''CREATE TABLE car (id serial PRIMARY KEY);''
                  @ second_run_events 10 ''cars'' ''scraper'' ''secret'' ''localhost'' ''5432'')"
proof -
  have c: "cooperative_server bootstrap_env ''cars''
             ''CREATE TABLE car (id serial PRIMARY KEY);''"
    by (simp add: cooperative_server_def bootstrap_env_def users_env_def)
  have n: "\<not> database_created ''cars'' []"
    by (simp add: database_created_def)
  show ?thesis
    using c n
      initialize_database_idempotent
        [OF c n, of "''scraper''" "''secret''" "''localhost''" "''5432''"]
    by simp
qed

end
